theory Spec2Isabelle
  imports Complex_Main "HOL-Library.Word"
begin

unbundle bit_operations_syntax

section \<open>Access tokens (auth/models.py)\<close>

text \<open>
  Instants and POSIX timestamps are seconds since the epoch. Python's \<open>datetime\<close> has
  microsecond resolution and \<open>timestamp()\<close> returns a float; both are idealised as exact
  rationals, and \<open>datetime.timestamp()\<close> as the identity.
\<close>

type_synonym instant = rat

text \<open>
  A \<open>datetime\<close> is naive or timezone-aware: \<open>datetime.now()\<close> is naive, and a
  Django \<open>DateTimeField\<close> holds aware values when \<open>USE_TZ\<close> is set and naive ones
  otherwise. Either kind has a timestamp. Ordering two values of different kinds raises
  \<open>TypeError\<close>, here \<open>None\<close>.
\<close>

datatype datetime = Naive instant | Aware instant

fun timestamp :: "datetime \<Rightarrow> instant" where
  "timestamp (Naive t) = t"
| "timestamp (Aware t) = t"

fun datetime_le :: "datetime \<Rightarrow> datetime \<Rightarrow> bool option" where
  "datetime_le (Naive a) (Naive b) = Some (a \<le> b)"
| "datetime_le (Aware a) (Aware b) = Some (a \<le> b)"
| "datetime_le (Naive a) (Aware b) = None"
| "datetime_le (Aware a) (Naive b) = None"

fun datetime_gt :: "datetime \<Rightarrow> datetime \<Rightarrow> bool option" where
  "datetime_gt (Naive a) (Naive b) = Some (a > b)"
| "datetime_gt (Aware a) (Aware b) = Some (a > b)"
| "datetime_gt (Naive a) (Aware b) = None"
| "datetime_gt (Aware a) (Naive b) = None"

text \<open>\<open>class ProxmoxMCPToken(BaseModel)\<close>: the per-request access context.\<close>

record ProxmoxMCPToken =
  client_id :: string
  user_id :: "int option"
  username :: "string option"
  permission :: "string option"
  expires_at :: instant
  scopes :: "string set"
  token_hash :: "string option"
  is_superuser :: bool

definition has_scope :: "ProxmoxMCPToken \<Rightarrow> string \<Rightarrow> bool" where
  "has_scope self scope = (scope \<in> scopes self)"

definition has_any_scope :: "ProxmoxMCPToken \<Rightarrow> string set \<Rightarrow> bool" where
  "has_any_scope self required = (scopes self \<inter> required \<noteq> {})"

definition has_all_scopes :: "ProxmoxMCPToken \<Rightarrow> string set \<Rightarrow> bool" where
  "has_all_scopes self required = (required \<subseteq> scopes self)"

text \<open>\<open>is_expired\<close> reads the clock; the instant it reads is the second argument.\<close>

definition is_expired :: "ProxmoxMCPToken \<Rightarrow> instant \<Rightarrow> bool" where
  "is_expired self now = (now > expires_at self)"

section \<open>Digests (auth/utils.py)\<close>

text \<open>
  A Python \<open>str\<close> is a sequence of Unicode code points, each below \<open>0x110000\<close>;
  surrogate code points (\<open>0xD800\<close> to \<open>0xDFFF\<close>) may occur in it.
\<close>

type_synonym py_str = "nat list"

type_synonym byte = "8 word"

type_synonym word64 = "64 word"

datatype py_error = UnicodeEncodeError

text \<open>
  \<open>str.encode('utf-8')\<close>: one to four bytes for each code point; a surrogate raises
  \<open>UnicodeEncodeError\<close>.
\<close>

definition utf8_code_point :: "nat \<Rightarrow> byte list option" where
  "utf8_code_point c =
    (if c < 0x80 then Some [of_nat c]
     else if c < 0x800 then Some [of_nat (0xC0 + c div 64), of_nat (0x80 + c mod 64)]
     else if 0xD800 \<le> c \<and> c \<le> 0xDFFF then None
     else if c < 0x10000 then
       Some [of_nat (0xE0 + c div 4096), of_nat (0x80 + c div 64 mod 64), of_nat (0x80 + c mod 64)]
     else if c < 0x110000 then
       Some [of_nat (0xF0 + c div 262144), of_nat (0x80 + c div 4096 mod 64),
             of_nat (0x80 + c div 64 mod 64), of_nat (0x80 + c mod 64)]
     else None)"

fun encode_utf8 :: "py_str \<Rightarrow> py_error + byte list" where
  "encode_utf8 [] = Inr []"
| "encode_utf8 (c # cs) =
    (case utf8_code_point c of
       None \<Rightarrow> Inl UnicodeEncodeError
     | Some bs \<Rightarrow> (case encode_utf8 cs of Inl e \<Rightarrow> Inl e | Inr rest \<Rightarrow> Inr (bs @ rest)))"

text \<open>
  \<open>hashlib.sha512\<close> is the standard library's SHA-512; it is written out here after
  FIPS 180-4: the round constants, the initial hash value, the padding, the message
  schedule and the eighty rounds of the compression function.
\<close>

definition K512 :: "word64 list" where
  "K512 =
    [0x428A2F98D728AE22, 0x7137449123EF65CD, 0xB5C0FBCFEC4D3B2F, 0xE9B5DBA58189DBBC,
     0x3956C25BF348B538, 0x59F111F1B605D019, 0x923F82A4AF194F9B, 0xAB1C5ED5DA6D8118,
     0xD807AA98A3030242, 0x12835B0145706FBE, 0x243185BE4EE4B28C, 0x550C7DC3D5FFB4E2,
     0x72BE5D74F27B896F, 0x80DEB1FE3B1696B1, 0x9BDC06A725C71235, 0xC19BF174CF692694,
     0xE49B69C19EF14AD2, 0xEFBE4786384F25E3, 0x0FC19DC68B8CD5B5, 0x240CA1CC77AC9C65,
     0x2DE92C6F592B0275, 0x4A7484AA6EA6E483, 0x5CB0A9DCBD41FBD4, 0x76F988DA831153B5,
     0x983E5152EE66DFAB, 0xA831C66D2DB43210, 0xB00327C898FB213F, 0xBF597FC7BEEF0EE4,
     0xC6E00BF33DA88FC2, 0xD5A79147930AA725, 0x06CA6351E003826F, 0x142929670A0E6E70,
     0x27B70A8546D22FFC, 0x2E1B21385C26C926, 0x4D2C6DFC5AC42AED, 0x53380D139D95B3DF,
     0x650A73548BAF63DE, 0x766A0ABB3C77B2A8, 0x81C2C92E47EDAEE6, 0x92722C851482353B,
     0xA2BFE8A14CF10364, 0xA81A664BBC423001, 0xC24B8B70D0F89791, 0xC76C51A30654BE30,
     0xD192E819D6EF5218, 0xD69906245565A910, 0xF40E35855771202A, 0x106AA07032BBD1B8,
     0x19A4C116B8D2D0C8, 0x1E376C085141AB53, 0x2748774CDF8EEB99, 0x34B0BCB5E19B48A8,
     0x391C0CB3C5C95A63, 0x4ED8AA4AE3418ACB, 0x5B9CCA4F7763E373, 0x682E6FF3D6B2B8A3,
     0x748F82EE5DEFB2FC, 0x78A5636F43172F60, 0x84C87814A1F0AB72, 0x8CC702081A6439EC,
     0x90BEFFFA23631E28, 0xA4506CEBDE82BDE9, 0xBEF9A3F7B2C67915, 0xC67178F2E372532B,
     0xCA273ECEEA26619C, 0xD186B8C721C0C207, 0xEADA7DD6CDE0EB1E, 0xF57D4F7FEE6ED178,
     0x06F067AA72176FBA, 0x0A637DC5A2C898A6, 0x113F9804BEF90DAE, 0x1B710B35131C471B,
     0x28DB77F523047D84, 0x32CAAB7B40C72493, 0x3C9EBE0A15C9BEBC, 0x431D67C49C100D4C,
     0x4CC5D4BECB3E42B6, 0x597F299CFC657E2A, 0x5FCB6FAB3AD6FAEC, 0x6C44198C4A475817]"

definition H512 :: "word64 \<times> word64 \<times> word64 \<times> word64 \<times> word64 \<times> word64 \<times> word64 \<times> word64" where
  "H512 =
    (0x6A09E667F3BCC908,
     0xBB67AE8584CAA73B,
     0x3C6EF372FE94F82B,
     0xA54FF53A5F1D36F1,
     0x510E527FADE682D1,
     0x9B05688C2B3E6C1F,
     0x1F83D9ABFB41BD6B,
     0x5BE0CD19137E2179)"

definition rotr :: "nat \<Rightarrow> word64 \<Rightarrow> word64" where
  "rotr n x = drop_bit n x OR push_bit (64 - n) x"

definition Ch :: "word64 \<Rightarrow> word64 \<Rightarrow> word64 \<Rightarrow> word64" where
  "Ch x y z = (x AND y) XOR (NOT x AND z)"

definition Maj :: "word64 \<Rightarrow> word64 \<Rightarrow> word64 \<Rightarrow> word64" where
  "Maj x y z = (x AND y) XOR (x AND z) XOR (y AND z)"

definition Sigma0 :: "word64 \<Rightarrow> word64" where
  "Sigma0 x = rotr 28 x XOR rotr 34 x XOR rotr 39 x"

definition Sigma1 :: "word64 \<Rightarrow> word64" where
  "Sigma1 x = rotr 14 x XOR rotr 18 x XOR rotr 41 x"

definition sigma0 :: "word64 \<Rightarrow> word64" where
  "sigma0 x = rotr 1 x XOR rotr 8 x XOR drop_bit 7 x"

definition sigma1 :: "word64 \<Rightarrow> word64" where
  "sigma1 x = rotr 19 x XOR rotr 61 x XOR drop_bit 6 x"

text \<open>Padding: a one bit, zeros, and the length in bits as a 128-bit big-endian number.\<close>

definition length_bytes :: "nat \<Rightarrow> byte list" where
  "length_bytes n =
    map (\<lambda>i. ucast (drop_bit (8 * i) (of_nat n :: 128 word)))
      [15, 14, 13, 12, 11, 10, 9, 8, 7, 6, 5, 4, 3, 2, 1, 0]"

definition pad :: "byte list \<Rightarrow> byte list" where
  "pad bs =
    bs @ [0x80] @ replicate ((128 - (length bs + 17) mod 128) mod 128) 0
       @ length_bytes (8 * length bs)"

definition be_word :: "byte list \<Rightarrow> word64" where
  "be_word bs = foldl (\<lambda>w b. push_bit 8 w OR ucast b) 0 bs"

fun chunks :: "nat \<Rightarrow> 'a list \<Rightarrow> 'a list list" where
  "chunks k [] = []"
| "chunks k (x # xs) =
    (if k = 0 then [] else take k (x # xs) # chunks k (drop k (x # xs)))"

text \<open>The message schedule: sixteen words of the block, extended to eighty.\<close>

fun extend_schedule :: "nat \<Rightarrow> word64 list \<Rightarrow> word64 list" where
  "extend_schedule 0 ws = ws"
| "extend_schedule (Suc n) ws =
    (let t = length ws in
     extend_schedule n (ws @ [sigma1 (ws ! (t - 2)) + ws ! (t - 7) + sigma0 (ws ! (t - 15)) + ws ! (t - 16)]))"

definition schedule :: "byte list \<Rightarrow> word64 list" where
  "schedule block = extend_schedule 64 (map be_word (chunks 8 block))"

type_synonym sha_state =
  "word64 \<times> word64 \<times> word64 \<times> word64 \<times> word64 \<times> word64 \<times> word64 \<times> word64"

fun round512 :: "word64 \<times> word64 \<Rightarrow> sha_state \<Rightarrow> sha_state" where
  "round512 (k, w) (a, b, c, d, e, f, g, h) =
    (let T1 = h + Sigma1 e + Ch e f g + k + w;
         T2 = Sigma0 a + Maj a b c
     in (T1 + T2, a, b, c, d + T1, e, f, g))"

fun add_state :: "sha_state \<Rightarrow> sha_state \<Rightarrow> sha_state" where
  "add_state (a, b, c, d, e, f, g, h) (a', b', c', d', e', f', g', h') =
    (a + a', b + b', c + c', d + d', e + e', f + f', g + g', h + h')"

definition compress :: "byte list \<Rightarrow> sha_state \<Rightarrow> sha_state" where
  "compress block H = add_state H (fold round512 (zip K512 (schedule block)) H)"

definition word_bytes :: "word64 \<Rightarrow> byte list" where
  "word_bytes w = map (\<lambda>i. ucast (drop_bit (8 * i) w)) [7, 6, 5, 4, 3, 2, 1, 0]"

fun state_bytes :: "sha_state \<Rightarrow> byte list" where
  "state_bytes (a, b, c, d, e, f, g, h) = concat (map word_bytes [a, b, c, d, e, f, g, h])"

definition sha512 :: "byte list \<Rightarrow> byte list" where
  "sha512 bs = state_bytes (fold compress (chunks 128 (pad bs)) H512)"

text \<open>\<open>hexdigest()\<close>: two lowercase hexadecimal digits for each byte.\<close>

definition hex_digit :: "byte \<Rightarrow> char" where
  "hex_digit n = ''0123456789abcdef'' ! unat n"

definition hexdigest :: "byte list \<Rightarrow> string" where
  "hexdigest bs = concat (map (\<lambda>b. [hex_digit (drop_bit 4 b), hex_digit (b AND 0x0F)]) bs)"

definition hash_sha512 :: "py_str \<Rightarrow> py_error + string" where
  "hash_sha512 v =
    (case encode_utf8 v of
       Inl e \<Rightarrow> Inl e
     | Inr bs \<Rightarrow> Inr (hexdigest (sha512 bs)))"

section \<open>The token store (examples/django_models.py)\<close>

text \<open>
  The Django models \<open>UserRole\<close>, \<open>User\<close> (with the nullable \<open>role\<close> relation added
  to it) and \<open>ApplicationToken\<close>. Fields whose names occur in more than one model carry
  the model's name.
\<close>

record UserRole =
  role_name :: string
  role_is_superuser :: bool
  can_write :: bool
  can_admin :: bool
  description :: string

record User =
  pk :: int
  user_username :: string
  user_is_superuser :: bool
  role :: "UserRole option"

record ApplicationToken =
  user :: User
  token_name :: string
  stored_token_hash :: string
  token_permission :: string
  expires :: "datetime option"
  created_at :: datetime
  last_used :: "datetime option"
  is_active :: bool
  allowed_ips :: string

text \<open>
  \<open>ApplicationToken.objects ... .get(token_hash=token_hash)\<close> on the rows of the table:
  the one row with that digest, \<open>ObjectDoesNotExist\<close> when there is none, and
  \<open>MultipleObjectsReturned\<close> when there are several.
\<close>

datatype get_result = Got ApplicationToken | ObjectDoesNotExist | MultipleObjectsReturned

definition objects_get :: "ApplicationToken list \<Rightarrow> string \<Rightarrow> get_result" where
  "objects_get objects h =
    (case filter (\<lambda>row. stored_token_hash row = h) objects of
       [] \<Rightarrow> ObjectDoesNotExist
     | [row] \<Rightarrow> Got row
     | _ \<Rightarrow> MultipleObjectsReturned)"

text \<open>
  \<open>ApplicationToken.is_expired\<close>: \<open>timezone.now() > self.expires\<close>, with the
  value \<open>timezone.now()\<close> returns as second argument.
\<close>

definition ApplicationToken_is_expired :: "ApplicationToken \<Rightarrow> datetime \<Rightarrow> bool option" where
  "ApplicationToken_is_expired self now =
    (case expires self of None \<Rightarrow> Some False | Some e \<Rightarrow> datetime_gt now e)"

section \<open>The authentication provider (auth/providers.py)\<close>

record YartuMCPAuthProvider =
  default_scopes :: "string set"
  provider_admin_scope :: string
  user_scope :: string
  provider_write_scope :: string

text \<open>\<open>YartuMCPAuthProvider.__init__\<close>: \<open>default_scopes or {"user"}\<close>.\<close>

definition YartuMCPAuthProvider_init ::
  "string set option \<Rightarrow> string \<Rightarrow> string \<Rightarrow> string \<Rightarrow> YartuMCPAuthProvider" where
  "YartuMCPAuthProvider_init dflt adm usr wr =
    \<lparr>default_scopes = (case dflt of None \<Rightarrow> {''user''} | Some d \<Rightarrow> if d = {} then {''user''} else d),
     provider_admin_scope = adm, user_scope = usr, provider_write_scope = wr\<rparr>"

definition default_YartuMCPAuthProvider :: YartuMCPAuthProvider where
  "default_YartuMCPAuthProvider = YartuMCPAuthProvider_init None ''admin'' ''user'' ''write''"

subsection \<open>The loader\<close>

text \<open>
  What the loader reads from its surroundings: the table \<open>ApplicationToken.objects\<close>,
  which is there only when Django could be imported (\<open>None\<close> stands for
  \<open>DJANGO_AVAILABLE = False\<close>), and the clock: \<open>datetime.now()\<close> is
  \<open>Naive (now env)\<close>, and one call of the loader reads it at most once.
\<close>

record auth_env =
  django :: "ApplicationToken list option"
  now :: instant

text \<open>The lines the loader writes to the logger \<open>proxmox-mcp.auth\<close>.\<close>

datatype auth_log =
    DjangoNotAvailable
  | ExpiredTokenUsed string
  | InvalidTokenAttempted
  | ErrorLoadingToken

text \<open>
  \<open>YartuMCPAuthProvider.load_access_token\<close>: the log lines written and the value
  returned. Every exception other than \<open>ObjectDoesNotExist\<close> ends in the last
  \<open>except\<close> clause: here the encoding error of the digest, a digest stored more
  than once, and the \<open>TypeError\<close> of comparing a timezone-aware stored expiry with
  the naive \<open>datetime.now()\<close>. The test
  \<open>app_token.expires and app_token.expires <= datetime.now()\<close> is false for a null
  expiry without reading the clock.
\<close>

definition load_access_token ::
  "YartuMCPAuthProvider \<Rightarrow> auth_env \<Rightarrow> py_str \<Rightarrow> auth_log list \<times> ProxmoxMCPToken option" where
  "load_access_token self env token =
    (case django env of
       None \<Rightarrow> ([DjangoNotAvailable], None)
     | Some objects \<Rightarrow>
        (case hash_sha512 token of
           Inl e \<Rightarrow> ([ErrorLoadingToken], None)
         | Inr digest \<Rightarrow>
            (case objects_get objects digest of
               ObjectDoesNotExist \<Rightarrow> ([InvalidTokenAttempted], None)
             | MultipleObjectsReturned \<Rightarrow> ([ErrorLoadingToken], None)
             | Got app_token \<Rightarrow>
                (case (case expires app_token of
                         None \<Rightarrow> Some False
                       | Some e \<Rightarrow> datetime_le e (Naive (now env))) of
                   None \<Rightarrow> ([ErrorLoadingToken], None)
                 | Some True \<Rightarrow> ([ExpiredTokenUsed (user_username (user app_token))], None)
                 | Some False \<Rightarrow>
                   (let scopes0 = {user_scope self};
                        scopes1 =
                          (case role (user app_token) of
                             Some r \<Rightarrow>
                               (if role_is_superuser r
                                then insert (provider_write_scope self)
                                       (insert (provider_admin_scope self) scopes0)
                                else if can_write r then insert (provider_write_scope self) scopes0
                                else scopes0)
                           | None \<Rightarrow>
                               (if user_is_superuser (user app_token)
                                then scopes0 \<union> {provider_admin_scope self, provider_write_scope self}
                                else scopes0))
                    in ([],
                        Some \<lparr>client_id = ''proxmox-mcp'',
                              user_id = Some (pk (user app_token)),
                              username = Some (user_username (user app_token)),
                              permission = Some (token_permission app_token),
                              expires_at =
                                (case expires app_token of
                                   Some e \<Rightarrow> timestamp e
                                 | None \<Rightarrow> now env + 86400),
                              scopes = scopes1,
                              token_hash = Some digest,
                              is_superuser = user_is_superuser (user app_token)\<rparr>))))))"

subsection \<open>The provider's scope policy\<close>

definition admin_tools :: "string list" where
  "admin_tools = [''delete_vm'', ''create_vm'', ''reset_vm'', ''stop_vm'', ''shutdown_vm'']"

definition write_tools :: "string list" where
  "write_tools = [''start_vm'', ''execute_vm_command'', ''create_snapshot'', ''rollback_snapshot'']"

definition get_required_scopes :: "YartuMCPAuthProvider \<Rightarrow> string \<Rightarrow> string set" where
  "get_required_scopes self tool_name =
    (if tool_name \<in> set admin_tools then {provider_admin_scope self}
     else if tool_name \<in> set write_tools then {provider_write_scope self}
     else {user_scope self})"

section \<open>Scope resolution (auth/middleware.py, class ScopeRBAC)\<close>

text \<open>
  The instance attributes of \<open>ScopeRBAC\<close>. The dict \<open>tool_scope_mapping\<close> is an
  association list read with \<open>map_of\<close>.
\<close>

record ScopeRBAC =
  tool_scope_mapping :: "(string \<times> string set) list"
  default_scope :: string
  admin_scope :: string
  write_scope :: string

definition get_default_tool_scope_mapping :: "(string \<times> string set) list" where
  "get_default_tool_scope_mapping =
    [(''delete_vm'', {''admin''}),
     (''create_vm'', {''admin''}),
     (''reset_vm'', {''admin''}),
     (''stop_vm'', {''admin''}),
     (''shutdown_vm'', {''write''}),
     (''start_vm'', {''write''}),
     (''execute_vm_command'', {''write''}),
     (''create_snapshot'', {''write''}),
     (''rollback_snapshot'', {''write''}),
     (''get_nodes'', {''user''}),
     (''get_node_status'', {''user''}),
     (''get_vms'', {''user''}),
     (''get_containers'', {''user''}),
     (''get_storage'', {''user''}),
     (''get_cluster_status'', {''user''}),
     (''get_vm_usage'', {''user''}),
     (''health'', {''user''})]"

text \<open>
  \<open>ScopeRBAC.__init__\<close>: \<open>tool_scope_mapping or self._get_default_tool_scope_mapping()\<close>
  takes the default table for \<open>None\<close> and for an empty dict, both falsy.
\<close>

definition ScopeRBAC_init ::
  "(string \<times> string set) list option \<Rightarrow> string \<Rightarrow> string \<Rightarrow> string \<Rightarrow> ScopeRBAC" where
  "ScopeRBAC_init mapping dflt adm wr =
    \<lparr>tool_scope_mapping =
       (case mapping of
          None \<Rightarrow> get_default_tool_scope_mapping
        | Some [] \<Rightarrow> get_default_tool_scope_mapping
        | Some (e # es) \<Rightarrow> e # es),
     default_scope = dflt, admin_scope = adm, write_scope = wr\<rparr>"

text \<open>\<open>ScopeRBAC()\<close> with every keyword argument at its default.\<close>

definition default_ScopeRBAC :: ScopeRBAC where
  "default_ScopeRBAC = ScopeRBAC_init None ''user'' ''admin'' ''write''"

text \<open>
  \<open>_get_tool_required_scopes\<close>: non-empty tags first, then the table, then the default
  scope. \<open>if tool_tags:\<close> is false for \<open>None\<close> and for an empty list.
\<close>

definition get_tool_required_scopes ::
  "ScopeRBAC \<Rightarrow> string \<Rightarrow> string list option \<Rightarrow> string set" where
  "get_tool_required_scopes self tool_name tool_tags =
    (case tool_tags of
       Some (t # ts) \<Rightarrow> set (t # ts)
     | _ \<Rightarrow>
        (case map_of (tool_scope_mapping self) tool_name of
           Some required \<Rightarrow> required
         | None \<Rightarrow> {default_scope self}))"

section \<open>Enforcement and audit middleware (auth/middleware.py)\<close>

text \<open>
  What \<open>get_access_token()\<close> returns: \<open>None\<close>, an object that is not a
  \<open>ProxmoxMCPToken\<close> (its argument is the text of its \<open>username\<close> attribute, when
  it has one), or a \<open>ProxmoxMCPToken\<close>.
\<close>

datatype access_token = NoToken | ForeignToken "string option" | MCPToken ProxmoxMCPToken

text \<open>A registered tool: its name and \<open>getattr(tool, 'tags', None)\<close>.\<close>

record tool =
  name :: string
  tags :: "string list option"

text \<open>
  What the middleware reads from its surroundings: the module constant
  \<open>FASTMCP_AVAILABLE\<close> set by the imports, the token of the current request, and the
  registry lookup \<open>ctx.fastmcp_context.fastmcp.get_tool\<close> (\<open>None\<close> when it raises).
\<close>

record mw_env =
  FASTMCP_AVAILABLE :: bool
  get_access_token :: access_token
  get_tool :: "string \<Rightarrow> tool option"

text \<open>
  The three \<open>ToolError\<close>s the middleware raises (missing credential; missing scopes,
  with the scopes missing and the scopes held; a wrapped exception), and a \<open>ToolError\<close>
  raised further down the chain.
\<close>

datatype tool_error =
    AuthenticationRequired
  | InsufficientScopes "string set" "string set"
  | AuthorizationFailure string
  | HandlerToolError string

datatype exn = ToolError tool_error | OtherException string

datatype 'r outcome = Return 'r | Raise exn

text \<open>The lines written to the logger \<open>proxmox-mcp.auth.middleware\<close>.\<close>

datatype log_record =
    NoValidTokenWarning
  | ToolFilteredOut string "string option" "string set" "string set"
  | ToolAccessSummary "string option" nat nat
  | ToolFilteringError exn
  | ToolAuthorized "string option" string
  | ToolAuthorizationError string
  | AuditRequest string string
  | AuditCompleted string string
  | AuditFailed string string exn

text \<open>
  \<open>call_next\<close> and every handler: a step on the log and on the state \<open>'s\<close> of whatever
  lies further down the chain, returning a value or raising.
\<close>

type_synonym ('r, 's) call_next = "log_record list \<times> 's \<Rightarrow> 'r outcome \<times> log_record list \<times> 's"

text \<open>The \<open>for tool in tools\<close> loop of \<open>on_list_tools\<close>, on \<open>allowed_tools\<close> and the log.\<close>

fun filter_tools ::
  "ScopeRBAC \<Rightarrow> ProxmoxMCPToken \<Rightarrow> tool list \<Rightarrow> tool list \<times> log_record list
    \<Rightarrow> tool list \<times> log_record list" where
  "filter_tools self token [] acc = acc"
| "filter_tools self token (t # rest) (allowed_tools, logs) =
    (let required_scopes = get_tool_required_scopes self (name t) (tags t) in
     if required_scopes = {} \<or> has_any_scope token required_scopes
     then filter_tools self token rest (allowed_tools @ [t], logs)
     else filter_tools self token rest
       (allowed_tools, logs @ [ToolFilteredOut (name t) (username token) required_scopes (scopes token)]))"

definition ScopeRBAC_on_list_tools ::
  "ScopeRBAC \<Rightarrow> mw_env \<Rightarrow> (tool list, 's) call_next \<Rightarrow> (tool list, 's) call_next" where
  "ScopeRBAC_on_list_tools self env call_next w =
    (if \<not> FASTMCP_AVAILABLE env then call_next w
     else case get_access_token env of
       MCPToken token \<Rightarrow>
         (case call_next w of
            (Return tools, logs, s) \<Rightarrow>
              (case filter_tools self token tools ([], logs) of
                 (allowed_tools, logs') \<Rightarrow>
                   (Return allowed_tools,
                    logs' @ [ToolAccessSummary (username token) (length allowed_tools) (length tools)],
                    s))
          | (Raise e, logs, s) \<Rightarrow> (Return [], logs @ [ToolFilteringError e], s))
     | _ \<Rightarrow> (Return [], fst w @ [NoValidTokenWarning], snd w))"

text \<open>
  \<open>ScopeRBAC.on_call_tool\<close>. The registry lookup falls back to name-only resolution
  when it raises. A \<open>ToolError\<close> passes through; any other exception of the rest of the
  chain is logged and wrapped.
\<close>

definition resolve_required_scopes :: "ScopeRBAC \<Rightarrow> mw_env \<Rightarrow> string \<Rightarrow> string set" where
  "resolve_required_scopes self env tool_name =
    (case get_tool env tool_name of
       Some t \<Rightarrow> get_tool_required_scopes self tool_name (tags t)
     | None \<Rightarrow> get_tool_required_scopes self tool_name None)"

definition ScopeRBAC_on_call_tool ::
  "ScopeRBAC \<Rightarrow> mw_env \<Rightarrow> string \<Rightarrow> ('r, 's) call_next \<Rightarrow> ('r, 's) call_next" where
  "ScopeRBAC_on_call_tool self env tool_name call_next w =
    (if \<not> FASTMCP_AVAILABLE env then call_next w
     else case get_access_token env of
       MCPToken token \<Rightarrow>
         (let required_scopes = resolve_required_scopes self env tool_name in
          if required_scopes \<noteq> {} \<and> \<not> has_any_scope token required_scopes
          then (Raise (ToolError (InsufficientScopes (required_scopes - scopes token) (scopes token))), w)
          else
            (case call_next (fst w @ [ToolAuthorized (username token) tool_name], snd w) of
               (Raise (OtherException e), logs, s) \<Rightarrow>
                 (Raise (ToolError (AuthorizationFailure e)), logs @ [ToolAuthorizationError e], s)
             | r \<Rightarrow> r))
     | _ \<Rightarrow> (Raise (ToolError AuthenticationRequired), w))"

record AuditMiddleware =
  log_requests :: bool
  log_responses :: bool

text \<open>
  \<open>user_info\<close>: \<open>f"user:{token.username}"\<close> when there is a token with a
  \<open>username\<close> attribute (a missing name prints as \<open>None\<close>), else \<open>"anonymous"\<close>.
\<close>

definition user_info :: "access_token \<Rightarrow> string" where
  "user_info token =
    (case token of
       MCPToken t \<Rightarrow> ''user:'' @ (case username t of Some u \<Rightarrow> u | None \<Rightarrow> ''None'')
     | ForeignToken (Some u) \<Rightarrow> ''user:'' @ u
     | _ \<Rightarrow> ''anonymous'')"

definition AuditMiddleware_on_call_tool ::
  "AuditMiddleware \<Rightarrow> mw_env \<Rightarrow> string \<Rightarrow> ('r, 's) call_next \<Rightarrow> ('r, 's) call_next" where
  "AuditMiddleware_on_call_tool self env tool_name call_next w =
    (if \<not> FASTMCP_AVAILABLE env then call_next w
     else
       (let who = user_info (get_access_token env);
            logs1 = (if log_requests self then fst w @ [AuditRequest who tool_name] else fst w)
        in case call_next (logs1, snd w) of
             (Return r, logs2, s) \<Rightarrow>
               (Return r, (if log_responses self then logs2 @ [AuditCompleted tool_name who] else logs2), s)
           | (Raise e, logs2, s) \<Rightarrow> (Raise e, logs2 @ [AuditFailed tool_name who e], s)))"

section \<open>The middleware stack (server_http.py)\<close>

datatype middleware = RBAC ScopeRBAC | Audit AuditMiddleware

fun on_call_tool ::
  "middleware \<Rightarrow> mw_env \<Rightarrow> string \<Rightarrow> ('r, 's) call_next \<Rightarrow> ('r, 's) call_next" where
  "on_call_tool (RBAC m) = ScopeRBAC_on_call_tool m"
| "on_call_tool (Audit m) = AuditMiddleware_on_call_tool m"

text \<open>
  \<open>_setup_middleware\<close>: with \<open>use_django_auth\<close>, \<open>ScopeRBAC()\<close> is added first and
  \<open>AuditMiddleware(log_requests=True, log_responses=False)\<close> second.
\<close>

definition setup_middleware :: "bool \<Rightarrow> middleware list" where
  "setup_middleware use_django_auth =
    (if use_django_auth
     then [RBAC default_ScopeRBAC, Audit \<lparr>log_requests = True, log_responses = False\<rparr>]
     else [])"

text \<open>
  FastMCP (a library, not part of this repository) runs the hooks of a tool call in the
  order the middleware was added: the first one added is outermost, and its
  \<open>call_next\<close> is the rest of the chain, the handler last.
\<close>

definition call_tool_chain ::
  "middleware list \<Rightarrow> mw_env \<Rightarrow> string \<Rightarrow> ('r, 's) call_next \<Rightarrow> ('r, 's) call_next" where
  "call_tool_chain mws env tool_name handler =
    foldr (\<lambda>mw nxt. on_call_tool mw env tool_name nxt) mws handler"

text \<open>The audit request records of a log that name the given caller and tool.\<close>

definition audit_requests :: "string \<Rightarrow> string \<Rightarrow> log_record list \<Rightarrow> nat" where
  "audit_requests who tool_name logs = length (filter (\<lambda>r. r = AuditRequest who tool_name) logs)"

section \<open>Predicates and example data of the statements\<close>

text \<open>
  The strings \<open>str.encode('utf-8')\<close> accepts: every code point is below
  \<open>0x110000\<close> and none is a surrogate.
\<close>

definition encodable :: "py_str \<Rightarrow> bool" where
  "encodable s = list_all (\<lambda>c. c < 0x110000 \<and> \<not> (0xD800 \<le> c \<and> c \<le> 0xDFFF)) s"

text \<open>
  The lowercase hexadecimal digits.
\<close>

definition hex_digits :: "char set" where
  "hex_digits = set ''0123456789abcdef''"

text \<open>
  A caller \<open>alice\<close> holding the given scopes, a request with no registry entry for
  its tool, a handler that counts its invocations, and a tool listing.
\<close>

definition alice_token :: "string set \<Rightarrow> ProxmoxMCPToken" where
  "alice_token held =
    \<lparr>client_id = ''proxmox-mcp'', user_id = Some 7, username = Some ''alice'',
     permission = Some ''read'', expires_at = 2000, scopes = held,
     token_hash = None, is_superuser = False\<rparr>"

definition request_env :: "bool \<Rightarrow> access_token \<Rightarrow> mw_env" where
  "request_env available token =
    \<lparr>FASTMCP_AVAILABLE = available, get_access_token = token, get_tool = (\<lambda>n. None)\<rparr>"

definition counting_handler :: "(string, nat) call_next" where
  "counting_handler w = (Return ''done'', fst w, Suc (snd w))"

definition tool_named :: "string \<Rightarrow> tool" where
  "tool_named n = \<lparr>name = n, tags = None\<rparr>"

definition listing :: "tool list \<Rightarrow> (tool list, nat) call_next" where
  "listing tools w = (Return tools, fst w, Suc (snd w))"

text \<open>
  \<open>ScopeRBAC(tool_scope_mapping={"public_info": set()})\<close>: an injected table that
  gives a tool the empty required-scope set.
\<close>

definition public_rbac :: ScopeRBAC where
  "public_rbac = ScopeRBAC_init (Some [(''public_info'', {})]) ''user'' ''admin'' ''write''"

text \<open>
  The raw token \<open>"secret"\<close>, its digest, and a stored token with that digest owned
  by a user \<open>alice\<close> with the given role, superuser flag, expiry and \<open>is_active\<close>.
\<close>

definition raw_secret :: py_str where
  "raw_secret = [115, 101, 99, 114, 101, 116]"

definition secret_digest :: string where
  "secret_digest = (case hash_sha512 raw_secret of Inr h \<Rightarrow> h | Inl e \<Rightarrow> [])"

definition alice :: "UserRole option \<Rightarrow> bool \<Rightarrow> User" where
  "alice r su = \<lparr>pk = 7, user_username = ''alice'', user_is_superuser = su, role = r\<rparr>"


definition stored_token :: "User \<Rightarrow> datetime option \<Rightarrow> bool \<Rightarrow> ApplicationToken" where
  "stored_token u e active =
    \<lparr>user = u, token_name = ''ci'', stored_token_hash = secret_digest,
     token_permission = ''read'', expires = e, created_at = Naive 0, last_used = None,
     is_active = active, allowed_ips = []\<rparr>"

section \<open>Scope resolution\<close>

lemma default_table_values_nonempty:
  "map_of get_default_tool_scope_mapping n = Some r \<Longrightarrow> r \<noteq> {}"
  by (auto simp: get_default_tool_scope_mapping_def split: if_splits)

lemma default_required_scopes_nonempty:
  "get_tool_required_scopes default_ScopeRBAC tool_name tool_tags \<noteq> {}"
proof (cases "map_of get_default_tool_scope_mapping tool_name")
  case None
  then show ?thesis
    by (simp add: get_tool_required_scopes_def default_ScopeRBAC_def ScopeRBAC_init_def
        split: option.splits list.splits)
next
  case (Some r)
  with default_table_values_nonempty have "r \<noteq> {}" by blast
  with Some show ?thesis
    by (simp add: get_tool_required_scopes_def default_ScopeRBAC_def ScopeRBAC_init_def
        split: option.splits list.splits)
qed

text \<open>
  C8. For every tool name and every optional tag list, scope resolution on a
  default-constructed \<open>ScopeRBAC\<close> returns a non-empty scope set; a name with no tags
  that is absent from the static table resolves to the single default scope
  \<open>{user}\<close>, never to the empty set.
\<close>

theorem required_scopes_nonempty:
  "get_tool_required_scopes default_ScopeRBAC tool_name tool_tags \<noteq> {} \<and>
   ((tool_tags = None \<or> tool_tags = Some []) \<and>
      map_of get_default_tool_scope_mapping tool_name = None \<longrightarrow>
    get_tool_required_scopes default_ScopeRBAC tool_name tool_tags = {''user''})"
proof
  show "get_tool_required_scopes default_ScopeRBAC tool_name tool_tags \<noteq> {}"
    by (rule default_required_scopes_nonempty)
  show "(tool_tags = None \<or> tool_tags = Some []) \<and>
      map_of get_default_tool_scope_mapping tool_name = None \<longrightarrow>
    get_tool_required_scopes default_ScopeRBAC tool_name tool_tags = {''user''}"
    by (auto simp: get_tool_required_scopes_def default_ScopeRBAC_def ScopeRBAC_init_def)
qed

theorem required_scopes_nonempty_witness:
  "get_tool_required_scopes default_ScopeRBAC ''resize_disk'' (Some []) = {''user''} \<and>
   get_tool_required_scopes default_ScopeRBAC ''resize_disk'' (Some []) \<noteq> {}"
  using required_scopes_nonempty [of "''resize_disk''" "Some []"]
  by (simp add: get_default_tool_scope_mapping_def)

text \<open>
  C4. The default table of \<open>ScopeRBAC\<close> and
  \<open>YartuMCPAuthProvider.get_required_scopes\<close> are claimed to be equal as functions
  from tool name to scope set. They differ at \<open>shutdown_vm\<close>: the table requires
  \<open>write\<close>, the provider \<open>admin\<close>.
\<close>

theorem default_policies_differ_at_shutdown_vm:
  "get_tool_required_scopes default_ScopeRBAC ''shutdown_vm'' None = {''write''} \<and>
   get_required_scopes default_YartuMCPAuthProvider ''shutdown_vm'' = {''admin''} \<and>
   get_tool_required_scopes default_ScopeRBAC ''shutdown_vm'' None
     \<noteq> get_required_scopes default_YartuMCPAuthProvider ''shutdown_vm''"
  by (simp add: get_tool_required_scopes_def default_ScopeRBAC_def ScopeRBAC_init_def
      get_default_tool_scope_mapping_def get_required_scopes_def
      default_YartuMCPAuthProvider_def YartuMCPAuthProvider_init_def admin_tools_def write_tools_def)

text \<open>
  At every other tool name the two policies agree.
\<close>

lemma default_policies_agree_elsewhere:
  assumes "tool_name \<noteq> ''shutdown_vm''"
  shows "get_tool_required_scopes default_ScopeRBAC tool_name None
     = get_required_scopes default_YartuMCPAuthProvider tool_name"
  using assms
  by (simp add: get_tool_required_scopes_def default_ScopeRBAC_def ScopeRBAC_init_def
      get_default_tool_scope_mapping_def get_required_scopes_def
      default_YartuMCPAuthProvider_def YartuMCPAuthProvider_init_def admin_tools_def write_tools_def)

section \<open>The invoke path\<close>

lemma request_env_simps:
  "FASTMCP_AVAILABLE (request_env a t) = a"
  "get_access_token (request_env a t) = t"
  "get_tool (request_env a t) = (\<lambda>n. None)"
  by (simp_all add: request_env_def)

lemma alice_token_simps:
  "scopes (alice_token held) = held"
  "username (alice_token held) = Some ''alice''"
  by (simp_all add: alice_token_def)

lemma resolve_delete_vm:
  "resolve_required_scopes default_ScopeRBAC (request_env a t) ''delete_vm'' = {''admin''}"
  by (simp add: resolve_required_scopes_def request_env_def get_tool_required_scopes_def
      default_ScopeRBAC_def ScopeRBAC_init_def get_default_tool_scope_mapping_def)

text \<open>
  C1, as amended. When \<open>FASTMCP_AVAILABLE\<close> holds: for every access token and tool
  name, if the resolved required-scope set is non-empty and disjoint from the token's
  scopes, \<open>ScopeRBAC.on_call_tool\<close> raises the authorization error naming the missing
  and the held scopes, whatever \<open>call_next\<close> is, and leaves the log and the state
  below it untouched: \<open>call_next\<close> is never invoked.
\<close>

theorem on_call_tool_denies:
  assumes "FASTMCP_AVAILABLE env"
    and "get_access_token env = MCPToken token"
    and "resolve_required_scopes self env tool_name \<noteq> {}"
    and "scopes token \<inter> resolve_required_scopes self env tool_name = {}"
  shows "ScopeRBAC_on_call_tool self env tool_name call_next w =
    (Raise (ToolError (InsufficientScopes
       (resolve_required_scopes self env tool_name - scopes token) (scopes token))), w)"
  using assms by (simp add: ScopeRBAC_on_call_tool_def has_any_scope_def Let_def)

theorem on_call_tool_denies_witness:
  "ScopeRBAC_on_call_tool default_ScopeRBAC
     (request_env True (MCPToken (alice_token {''user''}))) ''delete_vm'' counting_handler ([], 0)
   = (Raise (ToolError (InsufficientScopes {''admin''} {''user''})), [], 0)"
  using on_call_tool_denies [of "request_env True (MCPToken (alice_token {''user''}))"
      "alice_token {''user''}" default_ScopeRBAC "''delete_vm''" counting_handler "([], 0)"]
  by (simp add: resolve_delete_vm) (simp add: request_env_def alice_token_def)

text \<open>
  C1 as stated fails when \<open>FASTMCP_AVAILABLE\<close> is false: the invoke path is then a
  pass-through, and a caller holding only \<open>user\<close> reaches the handler of
  \<open>delete_vm\<close>, which requires \<open>admin\<close>.
\<close>

theorem on_call_tool_passes_through_when_unavailable:
  "scopes (alice_token {''user''})
     \<inter> resolve_required_scopes default_ScopeRBAC
         (request_env False (MCPToken (alice_token {''user''}))) ''delete_vm'' = {} \<and>
   resolve_required_scopes default_ScopeRBAC
     (request_env False (MCPToken (alice_token {''user''}))) ''delete_vm'' \<noteq> {} \<and>
   ScopeRBAC_on_call_tool default_ScopeRBAC
     (request_env False (MCPToken (alice_token {''user''}))) ''delete_vm'' counting_handler ([], 0)
   = (Return ''done'', [], 1)"
  by (simp add: resolve_delete_vm)
     (simp add: request_env_def alice_token_def ScopeRBAC_on_call_tool_def counting_handler_def)

section \<open>The list path\<close>

text \<open>
  The loop of \<open>on_list_tools\<close> keeps, in order, the tools whose required-scope set
  is empty or shares a scope with the token, and logs the others.
\<close>

lemma filter_tools_result:
  "filter_tools self token tools (acc, logs) =
    (acc @ filter (\<lambda>t. get_tool_required_scopes self (name t) (tags t) = {}
                      \<or> has_any_scope token (get_tool_required_scopes self (name t) (tags t))) tools,
     logs @ map (\<lambda>t. ToolFilteredOut (name t) (username token)
                      (get_tool_required_scopes self (name t) (tags t)) (scopes token))
              (filter (\<lambda>t. \<not> (get_tool_required_scopes self (name t) (tags t) = {}
                      \<or> has_any_scope token (get_tool_required_scopes self (name t) (tags t)))) tools))"
proof (induction tools arbitrary: acc logs)
  case Nil
  show ?case by simp
next
  case (Cons t rest)
  show ?case
  proof (cases "get_tool_required_scopes self (name t) (tags t) = {}
      \<or> has_any_scope token (get_tool_required_scopes self (name t) (tags t))")
    case True
    then show ?thesis using Cons.IH [of "acc @ [t]" logs] by (simp add: Let_def)
  next
    case False
    then show ?thesis
      using Cons.IH [of acc "logs @ [ToolFilteredOut (name t) (username token)
          (get_tool_required_scopes self (name t) (tags t)) (scopes token)]"]
      by (simp add: Let_def)
  qed
qed

lemma on_list_tools_with_token:
  assumes "FASTMCP_AVAILABLE env" and "get_access_token env = MCPToken token"
    and "call_next w = (Return tools, w')"
  shows "fst (ScopeRBAC_on_list_tools self env call_next w) =
    Return (filter (\<lambda>t. get_tool_required_scopes self (name t) (tags t) = {}
                      \<or> scopes token \<inter> get_tool_required_scopes self (name t) (tags t) \<noteq> {}) tools)"
  using assms
  by (cases w') (simp add: ScopeRBAC_on_list_tools_def filter_tools_result has_any_scope_def)

lemma on_list_tools_without_token:
  assumes "FASTMCP_AVAILABLE env" and "\<forall>t. get_access_token env \<noteq> MCPToken t"
  shows "fst (ScopeRBAC_on_list_tools self env call_next w) = Return []"
  using assms
  by (cases "get_access_token env") (simp_all add: ScopeRBAC_on_list_tools_def)

lemma required_default_simps:
  "get_tool_required_scopes default_ScopeRBAC ''get_vms'' None = {''user''}"
  "get_tool_required_scopes default_ScopeRBAC ''delete_vm'' None = {''admin''}"
  "get_tool_required_scopes default_ScopeRBAC ''start_vm'' None = {''write''}"
  by (simp_all add: get_tool_required_scopes_def default_ScopeRBAC_def ScopeRBAC_init_def
      get_default_tool_scope_mapping_def)

text \<open>
  C6, as amended. When \<open>FASTMCP_AVAILABLE\<close> holds: for every authenticated caller
  and every candidate tool list, \<open>ScopeRBAC.on_list_tools\<close> returns exactly the tools
  whose resolved required-scope set is empty or intersects the caller's scopes; on a
  default-constructed \<open>ScopeRBAC\<close>, where no resolved set is empty, exactly the tools
  whose required set intersects the caller's scopes; a caller holding exactly
  \<open>{user}\<close> gets exactly the tools whose required set contains \<open>user\<close>; and
  with no valid token the result is the empty list, not an error.
\<close>

theorem on_list_tools_filters:
  assumes "FASTMCP_AVAILABLE env"
  shows
   "(get_access_token env = MCPToken token \<and> call_next w = (Return tools, w') \<longrightarrow>
       fst (ScopeRBAC_on_list_tools self env call_next w) =
         Return (filter (\<lambda>t. get_tool_required_scopes self (name t) (tags t) = {}
                   \<or> scopes token \<inter> get_tool_required_scopes self (name t) (tags t) \<noteq> {}) tools)) \<and>
    (get_access_token env = MCPToken token \<and> call_next w = (Return tools, w') \<longrightarrow>
       fst (ScopeRBAC_on_list_tools default_ScopeRBAC env call_next w) =
         Return (filter (\<lambda>t. scopes token
                   \<inter> get_tool_required_scopes default_ScopeRBAC (name t) (tags t) \<noteq> {}) tools)) \<and>
    (get_access_token env = MCPToken token \<and> call_next w = (Return tools, w') \<and>
       scopes token = {''user''} \<longrightarrow>
       fst (ScopeRBAC_on_list_tools default_ScopeRBAC env call_next w) =
         Return (filter (\<lambda>t. ''user''
                   \<in> get_tool_required_scopes default_ScopeRBAC (name t) (tags t)) tools)) \<and>
    ((\<forall>t. get_access_token env \<noteq> MCPToken t) \<longrightarrow>
       fst (ScopeRBAC_on_list_tools self env call_next w) = Return [])"
proof (intro conjI impI)
  assume a: "get_access_token env = MCPToken token \<and> call_next w = (Return tools, w')"
  with assms show "fst (ScopeRBAC_on_list_tools self env call_next w) =
         Return (filter (\<lambda>t. get_tool_required_scopes self (name t) (tags t) = {}
                   \<or> scopes token \<inter> get_tool_required_scopes self (name t) (tags t) \<noteq> {}) tools)"
    by (simp add: on_list_tools_with_token)
  from assms a show "fst (ScopeRBAC_on_list_tools default_ScopeRBAC env call_next w) =
         Return (filter (\<lambda>t. scopes token
                   \<inter> get_tool_required_scopes default_ScopeRBAC (name t) (tags t) \<noteq> {}) tools)"
    by (simp add: on_list_tools_with_token default_required_scopes_nonempty)
next
  assume a: "get_access_token env = MCPToken token \<and> call_next w = (Return tools, w') \<and>
       scopes token = {''user''}"
  with assms show "fst (ScopeRBAC_on_list_tools default_ScopeRBAC env call_next w) =
         Return (filter (\<lambda>t. ''user''
                   \<in> get_tool_required_scopes default_ScopeRBAC (name t) (tags t)) tools)"
    by (simp add: on_list_tools_with_token default_required_scopes_nonempty)
next
  assume "\<forall>t. get_access_token env \<noteq> MCPToken t"
  with assms show "fst (ScopeRBAC_on_list_tools self env call_next w) = Return []"
    by (simp add: on_list_tools_without_token)
qed

theorem on_list_tools_filters_witness:
  "fst (ScopeRBAC_on_list_tools default_ScopeRBAC
          (request_env True (MCPToken (alice_token {''user''})))
          (listing [tool_named ''get_vms'', tool_named ''delete_vm'', tool_named ''start_vm''])
          ([], 0))
     = Return [tool_named ''get_vms''] \<and>
   fst (ScopeRBAC_on_list_tools default_ScopeRBAC (request_env True NoToken)
          (listing [tool_named ''get_vms'', tool_named ''delete_vm'', tool_named ''start_vm''])
          ([], 0))
     = Return []"
  using
    on_list_tools_filters [of "request_env True (MCPToken (alice_token {''user''}))"
      "alice_token {''user''}"
      "listing [tool_named ''get_vms'', tool_named ''delete_vm'', tool_named ''start_vm'']"
      "([], 0)" "[tool_named ''get_vms'', tool_named ''delete_vm'', tool_named ''start_vm'']"
      "([], 1)" default_ScopeRBAC]
    on_list_tools_filters [of "request_env True NoToken" "alice_token {''user''}"
      "listing [tool_named ''get_vms'', tool_named ''delete_vm'', tool_named ''start_vm'']"
      "([], 0)" "[]" "([], 1)" default_ScopeRBAC]
  by (simp add: request_env_def alice_token_def listing_def tool_named_def required_default_simps)

text \<open>
  C6 as stated fails for a tool whose required-scope set is empty: the guard
  \<open>not required_scopes or ...\<close> keeps it although it shares no scope with the
  caller.
\<close>

theorem on_list_tools_keeps_unrestricted_tool:
  "scopes (alice_token {''user''})
     \<inter> get_tool_required_scopes public_rbac (name (tool_named ''public_info''))
         (tags (tool_named ''public_info'')) = {} \<and>
   fst (ScopeRBAC_on_list_tools public_rbac
          (request_env True (MCPToken (alice_token {''user''})))
          (listing [tool_named ''public_info'']) ([], 0))
     = Return [tool_named ''public_info'']"
  by (simp add: ScopeRBAC_on_list_tools_def request_env_def alice_token_def listing_def
      tool_named_def public_rbac_def ScopeRBAC_init_def get_tool_required_scopes_def
      has_any_scope_def)

section \<open>The audit trail of the middleware stack\<close>

text \<open>
  In the stack of \<open>_setup_middleware\<close> a call that \<open>ScopeRBAC\<close> denies, for
  missing scopes or for a missing token, ends there: the audit middleware below it never
  runs and the log is unchanged. A call that is allowed gets exactly one audit request
  record, when the handler itself leaves the log alone.
\<close>

lemma rbac_denial_skips_rest_of_chain:
  assumes "FASTMCP_AVAILABLE env" and "get_access_token env = MCPToken token"
    and "resolve_required_scopes default_ScopeRBAC env tool_name \<noteq> {}"
    and "scopes token \<inter> resolve_required_scopes default_ScopeRBAC env tool_name = {}"
  shows "call_tool_chain (setup_middleware True) env tool_name handler (logs, s) =
    (Raise (ToolError (InsufficientScopes
       (resolve_required_scopes default_ScopeRBAC env tool_name - scopes token) (scopes token))),
     logs, s)"
  using assms
  by (simp add: call_tool_chain_def setup_middleware_def ScopeRBAC_on_call_tool_def
      has_any_scope_def Let_def)

lemma unauthenticated_call_skips_rest_of_chain:
  assumes "FASTMCP_AVAILABLE env" and "\<forall>t. get_access_token env \<noteq> MCPToken t"
  shows "call_tool_chain (setup_middleware True) env tool_name handler (logs, s) =
    (Raise (ToolError AuthenticationRequired), logs, s)"
  using assms
  by (cases "get_access_token env")
     (simp_all add: call_tool_chain_def setup_middleware_def ScopeRBAC_on_call_tool_def)

lemma allowed_call_is_audited_once:
  assumes "FASTMCP_AVAILABLE env" and "get_access_token env = MCPToken token"
    and "resolve_required_scopes default_ScopeRBAC env tool_name = {}
          \<or> scopes token \<inter> resolve_required_scopes default_ScopeRBAC env tool_name \<noteq> {}"
    and "\<And>l s. fst (snd (handler (l, s))) = l"
  shows "audit_requests (user_info (MCPToken token)) tool_name
           (fst (snd (call_tool_chain (setup_middleware True) env tool_name handler (logs, s))))
         = Suc (audit_requests (user_info (MCPToken token)) tool_name logs)"
proof -
  obtain r l' s' where h: "handler (logs @ [ToolAuthorized (username token) tool_name,
      AuditRequest (user_info (MCPToken token)) tool_name], s) = (r, l', s')"
    by (cases "handler (logs @ [ToolAuthorized (username token) tool_name,
      AuditRequest (user_info (MCPToken token)) tool_name], s)") auto
  with assms(4) [of "logs @ [ToolAuthorized (username token) tool_name,
      AuditRequest (user_info (MCPToken token)) tool_name]" s]
  have l': "l' = logs @ [ToolAuthorized (username token) tool_name,
      AuditRequest (user_info (MCPToken token)) tool_name]" by simp
  show ?thesis
  proof (cases r)
    case (Return v)
    with assms(1-3) h l' show ?thesis
      by (auto simp: call_tool_chain_def setup_middleware_def ScopeRBAC_on_call_tool_def
          AuditMiddleware_on_call_tool_def has_any_scope_def Let_def audit_requests_def)
  next
    case (Raise e)
    with assms(1-3) h l' show ?thesis
      by (cases e)
         (auto simp: call_tool_chain_def setup_middleware_def ScopeRBAC_on_call_tool_def
          AuditMiddleware_on_call_tool_def has_any_scope_def Let_def audit_requests_def)
  qed
qed

text \<open>
  C3. Every tool-invocation attempt through the stack, allowed or denied, is claimed to
  emit exactly one audit request record naming the caller and the tool. A denied attempt
  emits none: \<open>alice\<close>, holding only \<open>user\<close>, calls \<open>delete_vm\<close>; the call
  is refused, the handler does not run, and the log stays empty.
\<close>

theorem denied_call_is_not_audited:
  "call_tool_chain (setup_middleware True)
     (request_env True (MCPToken (alice_token {''user''}))) ''delete_vm'' counting_handler ([], 0)
     = (Raise (ToolError (InsufficientScopes {''admin''} {''user''})), [], 0) \<and>
   audit_requests (user_info (MCPToken (alice_token {''user''}))) ''delete_vm''
     (fst (snd (call_tool_chain (setup_middleware True)
        (request_env True (MCPToken (alice_token {''user''}))) ''delete_vm'' counting_handler
        ([], 0)))) = 0"
  by (simp add: call_tool_chain_def setup_middleware_def ScopeRBAC_on_call_tool_def
      resolve_delete_vm has_any_scope_def audit_requests_def request_env_simps alice_token_simps)

section \<open>Digests\<close>

lemma utf8_code_point_defined:
  assumes "c < 0x110000" and "\<not> (0xD800 \<le> c \<and> c \<le> 0xDFFF)"
  shows "\<exists>bs. utf8_code_point c = Some bs"
  using assms by (simp add: utf8_code_point_def)

lemma encode_utf8_defined: "encodable s \<Longrightarrow> \<exists>bs. encode_utf8 s = Inr bs"
proof (induction s)
  case Nil
  show ?case by simp
next
  case (Cons c cs)
  then obtain rest where rest: "encode_utf8 cs = Inr rest"
    by (auto simp: encodable_def)
  from Cons.prems obtain bs where "utf8_code_point c = Some bs"
    using utf8_code_point_defined [of c] by (auto simp: encodable_def)
  with rest show ?case by simp
qed

lemma encode_utf8_error: "\<not> encodable s \<Longrightarrow> encode_utf8 s = Inl UnicodeEncodeError"
proof (induction s)
  case Nil
  then show ?case by (simp add: encodable_def)
next
  case (Cons c cs)
  show ?case
  proof (cases "utf8_code_point c")
    case None
    then show ?thesis by simp
  next
    case (Some bs)
    then have "c < 0x110000 \<and> \<not> (0xD800 \<le> c \<and> c \<le> 0xDFFF)"
      by (simp add: utf8_code_point_def split: if_splits)
    with Cons.prems have "\<not> encodable cs" by (simp add: encodable_def)
    with Cons.IH have "encode_utf8 cs = Inl UnicodeEncodeError" by simp
    with Some show ?thesis by simp
  qed
qed

lemma length_word_bytes: "length (word_bytes w) = 8"
  by (simp add: word_bytes_def)

lemma length_state_bytes: "length (state_bytes st) = 64"
  by (cases st rule: state_bytes.cases) (simp add: length_word_bytes)

lemma length_sha512: "length (sha512 bs) = 64"
  by (simp add: sha512_def length_state_bytes)

lemma length_hexdigest: "length (hexdigest bs) = 2 * length bs"
  by (induction bs) (simp_all add: hexdigest_def)

lemma hex_digit_lowercase:
  assumes "unat n < 16"
  shows "hex_digit n \<in> hex_digits"
proof -
  have "unat n < length ''0123456789abcdef''" using assms by simp
  then have "''0123456789abcdef'' ! unat n \<in> set ''0123456789abcdef''"
    by (rule nth_mem)
  then show ?thesis by (simp only: hex_digit_def hex_digits_def)
qed

lemma high_nibble: "unat (drop_bit 4 (b :: byte)) < 16"
proof -
  have "unat b < 256" using unsigned_less [of b, where 'a = nat] by simp
  moreover have "unat (drop_bit 4 b) = unat b div 16"
    by (simp add: drop_bit_eq_div unat_div)
  ultimately show ?thesis by simp
qed

lemma low_nibble: "unat ((b :: byte) AND 0x0F) < 16"
proof -
  have "b AND 0x0F \<le> 0x0F" by (rule word_and_le1)
  then have "unat (b AND 0x0F) \<le> unat (0x0F :: byte)" by (simp only: word_le_nat_alt)
  then show ?thesis by simp
qed

lemma hexdigest_lowercase: "set (hexdigest bs) \<subseteq> hex_digits"
  by (induction bs) (simp_all add: hexdigest_def hex_digit_lowercase high_nibble low_nibble)

lemma hash_raw_secret: "hash_sha512 raw_secret = Inr secret_digest"
proof -
  have "encodable raw_secret" by (simp add: encodable_def raw_secret_def)
  then obtain bs where "encode_utf8 raw_secret = Inr bs"
    using encode_utf8_defined by blast
  then show ?thesis by (simp add: secret_digest_def hash_sha512_def)
qed

text \<open>
  C9, as amended. For every input string that has a UTF-8 encoding, \<open>hash_sha512\<close>
  returns the hexadecimal SHA-512 digest of that encoding: a string of exactly 128
  characters, each a lowercase hexadecimal digit; and it is a function of its argument
  alone, so equal inputs give equal outputs.
\<close>

theorem hash_sha512_format:
  assumes "encodable s"
  shows "\<exists>bs h. encode_utf8 s = Inr bs \<and> hash_sha512 s = Inr h \<and> h = hexdigest (sha512 bs) \<and>
           length h = 128 \<and> set h \<subseteq> hex_digits \<and>
           (\<forall>s'. s' = s \<longrightarrow> hash_sha512 s' = Inr h)"
proof -
  from assms obtain bs where bs: "encode_utf8 s = Inr bs"
    using encode_utf8_defined by blast
  then have "hash_sha512 s = Inr (hexdigest (sha512 bs))"
    by (simp add: hash_sha512_def)
  moreover have "length (hexdigest (sha512 bs)) = 128"
    by (simp add: length_hexdigest length_sha512)
  moreover have "set (hexdigest (sha512 bs)) \<subseteq> hex_digits"
    by (rule hexdigest_lowercase)
  ultimately show ?thesis using bs by simp
qed

theorem hash_sha512_format_witness:
  "encodable raw_secret \<and>
   (\<exists>h. hash_sha512 raw_secret = Inr h \<and> length h = 128 \<and> set h \<subseteq> hex_digits)"
  using hash_sha512_format [of raw_secret]
  by (auto simp: encodable_def raw_secret_def)

text \<open>
  C9 as stated fails for a string with a surrogate code point, which a Python
  \<open>str\<close> may hold: \<open>hash_sha512("\ud800")\<close> raises \<open>UnicodeEncodeError\<close>
  and returns no digest.
\<close>

theorem hash_sha512_raises_on_surrogate:
  "(0xD800 :: nat) < 0x110000 \<and> hash_sha512 [0xD800] = Inl UnicodeEncodeError"
  by (simp add: hash_sha512_def utf8_code_point_def)

section \<open>The loader\<close>

lemma objects_get_single:
  "objects_get [stored_token u e active] secret_digest = Got (stored_token u e active)"
  by (simp add: objects_get_def stored_token_def)

lemma default_provider_simps:
  "user_scope default_YartuMCPAuthProvider = ''user''"
  "provider_admin_scope default_YartuMCPAuthProvider = ''admin''"
  "provider_write_scope default_YartuMCPAuthProvider = ''write''"
  by (simp_all add: default_YartuMCPAuthProvider_def YartuMCPAuthProvider_init_def)

lemma stored_token_simps:
  "user (stored_token u e active) = u"
  "expires (stored_token u e active) = e"
  "is_active (stored_token u e active) = active"
  "token_permission (stored_token u e active) = ''read''"
  by (simp_all add: stored_token_def)

lemma alice_simps:
  "pk (alice r su) = 7"
  "user_username (alice r su) = ''alice''"
  "user_is_superuser (alice r su) = su"
  "role (alice r su) = r"
  by (simp_all add: alice_def)

text \<open>
  What the loader returns for a token whose digest the table holds exactly once: a
  rejection for expiry, or the access context.
\<close>

lemma load_access_token_matched:
  assumes "django env = Some objects" and "hash_sha512 token = Inr digest"
    and "objects_get objects digest = Got app_token"
  shows "load_access_token self env token =
    (case (case expires app_token of
             None \<Rightarrow> Some False
           | Some e \<Rightarrow> datetime_le e (Naive (now env))) of
       None \<Rightarrow> ([ErrorLoadingToken], None)
     | Some True \<Rightarrow> ([ExpiredTokenUsed (user_username (user app_token))], None)
     | Some False \<Rightarrow>
        ([],
         Some \<lparr>client_id = ''proxmox-mcp'',
             user_id = Some (pk (user app_token)),
             username = Some (user_username (user app_token)),
             permission = Some (token_permission app_token),
             expires_at =
               (case expires app_token of Some e \<Rightarrow> timestamp e | None \<Rightarrow> now env + 86400),
             scopes =
               {user_scope self} \<union>
               (case role (user app_token) of
                  Some r \<Rightarrow>
                    if role_is_superuser r
                    then {provider_admin_scope self, provider_write_scope self}
                    else if can_write r then {provider_write_scope self} else {}
                | None \<Rightarrow>
                    if user_is_superuser (user app_token)
                    then {provider_admin_scope self, provider_write_scope self} else {}),
             token_hash = Some digest,
             is_superuser = user_is_superuser (user app_token)\<rparr>))"
  using assms
  by (auto simp: load_access_token_def Let_def split: option.splits bool.splits)


text \<open>
  C2. A raw token whose digest matches a stored token with \<open>is_active\<close> false is
  claimed to fail like a token that matches no record. The loader never reads
  \<open>is_active\<close>: the inactive token is accepted and an access context returned, while
  the unknown token yields \<open>None\<close>.
\<close>

theorem inactive_token_is_accepted:
  "is_active (stored_token (alice None False) None False) = False \<and>
   load_access_token default_YartuMCPAuthProvider
     \<lparr>django = Some [stored_token (alice None False) None False], now = 1000\<rparr> raw_secret
   = ([], Some \<lparr>client_id = ''proxmox-mcp'', user_id = Some 7, username = Some ''alice'',
               permission = Some ''read'', expires_at = 87400, scopes = {''user''},
               token_hash = Some secret_digest, is_superuser = False\<rparr>) \<and>
   load_access_token default_YartuMCPAuthProvider \<lparr>django = Some [], now = 1000\<rparr> raw_secret
   = ([InvalidTokenAttempted], None)"
proof -
  have "load_access_token default_YartuMCPAuthProvider
     \<lparr>django = Some [stored_token (alice None False) None False], now = 1000\<rparr> raw_secret
   = ([], Some \<lparr>client_id = ''proxmox-mcp'', user_id = Some 7, username = Some ''alice'',
               permission = Some ''read'', expires_at = 87400, scopes = {''user''},
               token_hash = Some secret_digest, is_superuser = False\<rparr>)"
    using load_access_token_matched [of
        "\<lparr>django = Some [stored_token (alice None False) None False], now = 1000\<rparr>"
        "[stored_token (alice None False) None False]" raw_secret secret_digest
        "stored_token (alice None False) None False" default_YartuMCPAuthProvider]
    by (simp add: hash_raw_secret objects_get_single stored_token_simps alice_simps
        default_provider_simps)
  moreover have "load_access_token default_YartuMCPAuthProvider
      \<lparr>django = Some [], now = 1000\<rparr> raw_secret = ([InvalidTokenAttempted], None)"
    by (simp add: load_access_token_def hash_raw_secret objects_get_def)
  ultimately show ?thesis by (simp add: stored_token_simps)
qed

text \<open>
  Flipping \<open>is_active\<close> on any rows of the table changes nothing the loader does.
\<close>

lemma objects_get_ignores_is_active:
  "objects_get (map (\<lambda>row. row\<lparr>is_active := f row\<rparr>) objects) digest =
    (case objects_get objects digest of
       Got row \<Rightarrow> Got (row\<lparr>is_active := f row\<rparr>)
     | r \<Rightarrow> r)"
proof -
  have "filter (\<lambda>row. stored_token_hash row = digest) (map (\<lambda>row. row\<lparr>is_active := f row\<rparr>) objects)
      = map (\<lambda>row. row\<lparr>is_active := f row\<rparr>) (filter (\<lambda>row. stored_token_hash row = digest) objects)"
    by (induction objects) simp_all
  then show ?thesis
    by (simp add: objects_get_def split: list.splits)
qed

lemma load_access_token_ignores_is_active:
  "load_access_token self \<lparr>django = Some (map (\<lambda>row. row\<lparr>is_active := f row\<rparr>) objects), now = t\<rparr> token
   = load_access_token self \<lparr>django = Some objects, now = t\<rparr> token"
  by (auto simp: load_access_token_def objects_get_ignores_is_active Let_def
      split: sum.splits get_result.splits option.splits bool.splits)

text \<open>
  C5. The loader is claimed to reject a matched token for expiry if and only if the
  stored expiry is set and lies in the past, as \<open>ApplicationToken.is_expired\<close> and
  \<open>ProxmoxMCPToken.is_expired\<close> have it with their strict comparisons. The loader
  compares with \<open><=\<close>: a token whose expiry equals the validation instant, which
  is not in the past and which \<open>ApplicationToken.is_expired\<close> does not count expired,
  is rejected for expiry.
\<close>

theorem rejected_at_the_expiry_instant:
  "expires (stored_token (alice None False) (Some (Naive 1000)) True) = Some (Naive 1000) \<and>
   \<not> (1000 < now \<lparr>django = Some [stored_token (alice None False) (Some (Naive 1000)) True],
                     now = 1000\<rparr>) \<and>
   load_access_token default_YartuMCPAuthProvider
     \<lparr>django = Some [stored_token (alice None False) (Some (Naive 1000)) True], now = 1000\<rparr>
     raw_secret
     = ([ExpiredTokenUsed ''alice''], None) \<and>
   ApplicationToken_is_expired (stored_token (alice None False) (Some (Naive 1000)) True)
     (Naive 1000) = Some False"
  using load_access_token_matched [of
      "\<lparr>django = Some [stored_token (alice None False) (Some (Naive 1000)) True], now = 1000\<rparr>"
      "[stored_token (alice None False) (Some (Naive 1000)) True]" raw_secret secret_digest
      "stored_token (alice None False) (Some (Naive 1000)) True" default_YartuMCPAuthProvider]
  by (simp add: hash_raw_secret objects_get_single stored_token_simps alice_simps
      ApplicationToken_is_expired_def)

text \<open>
  A timezone-aware stored expiry, past or future, cannot be compared with the naive
  \<open>datetime.now()\<close>: the loader refuses the token through its last \<open>except\<close>
  clause.
\<close>

lemma aware_expiry_is_refused:
  "load_access_token default_YartuMCPAuthProvider
     \<lparr>django = Some [stored_token (alice None False) (Some (Aware 2000)) True], now = 1000\<rparr>
     raw_secret
     = ([ErrorLoadingToken], None)"
  using load_access_token_matched [of
      "\<lparr>django = Some [stored_token (alice None False) (Some (Aware 2000)) True], now = 1000\<rparr>"
      "[stored_token (alice None False) (Some (Aware 2000)) True]" raw_secret secret_digest
      "stored_token (alice None False) (Some (Aware 2000)) True" default_YartuMCPAuthProvider]
  by (simp add: hash_raw_secret objects_get_single stored_token_simps)

text \<open>
  What the loader does with the expiry of a matched token: it is rejected for expiry
  exactly when the stored expiry is naive and not later than the validation instant,
  refused with an error exactly when the stored expiry is aware, and a token with a null
  expiry is accepted.
\<close>

lemma expiry_rejection:
  assumes "django env = Some objects" and "hash_sha512 token = Inr digest"
    and "objects_get objects digest = Got app_token"
  shows
   "(load_access_token self env token = ([ExpiredTokenUsed (user_username (user app_token))], None)
       \<longleftrightarrow> (\<exists>e. expires app_token = Some (Naive e) \<and> e \<le> now env)) \<and>
    (load_access_token self env token = ([ErrorLoadingToken], None)
       \<longleftrightarrow> (\<exists>e. expires app_token = Some (Aware e))) \<and>
    (expires app_token = None \<longrightarrow> (\<exists>ctx. load_access_token self env token = ([], Some ctx)))"
proof (cases "expires app_token")
  case None
  with load_access_token_matched [OF assms, of self] show ?thesis by simp
next
  case (Some d)
  with load_access_token_matched [OF assms, of self] show ?thesis
    by (cases d) (auto split: bool.splits)
qed

lemma expiry_rejection_example:
  "load_access_token default_YartuMCPAuthProvider
     \<lparr>django = Some [stored_token (alice None False) (Some (Naive 999)) False], now = 1000\<rparr>
     raw_secret
     = ([ExpiredTokenUsed ''alice''], None)"
  using
    expiry_rejection [of
      "\<lparr>django = Some [stored_token (alice None False) (Some (Naive 999)) False], now = 1000\<rparr>"
      "[stored_token (alice None False) (Some (Naive 999)) False]" raw_secret secret_digest
      "stored_token (alice None False) (Some (Naive 999)) False" default_YartuMCPAuthProvider]
  by (simp add: hash_raw_secret objects_get_single stored_token_simps alice_simps)



text \<open>
  C10. For every repository token whose stored expiry is null, the loader returns an
  access context whose \<open>expires_at\<close> is the validation instant plus exactly 86400
  seconds, so that \<open>is_expired\<close> holds of it exactly at the instants more than 24
  hours after validation, although the stored token never expires.
\<close>

theorem null_expiry_expires_after_one_day:
  assumes "django env = Some objects" and "hash_sha512 token = Inr digest"
    and "objects_get objects digest = Got app_token" and "expires app_token = None"
  shows "\<exists>ctx. load_access_token self env token = ([], Some ctx) \<and>
    expires_at ctx = now env + 86400 \<and>
    (\<forall>t. is_expired ctx t \<longleftrightarrow> t > now env + 86400)"
  using load_access_token_matched [OF assms(1-3), of self] assms(4)
  by (simp add: is_expired_def)

theorem null_expiry_expires_after_one_day_witness:
  "\<exists>ctx. load_access_token default_YartuMCPAuthProvider
       \<lparr>django = Some [stored_token (alice None False) None True], now = 1000\<rparr> raw_secret
       = ([], Some ctx) \<and>
     expires_at ctx = 87400 \<and> \<not> is_expired ctx 87400 \<and> is_expired ctx 87401"
  using null_expiry_expires_after_one_day [of
      "\<lparr>django = Some [stored_token (alice None False) None True], now = 1000\<rparr>"
      "[stored_token (alice None False) None True]" raw_secret secret_digest
      "stored_token (alice None False) None True" default_YartuMCPAuthProvider]
  by (auto simp: hash_raw_secret objects_get_single stored_token_simps)

end
